theory Spec2Isabelle
  imports Complex_Main
begin

section \<open>Data model (types.ts)\<close>

datatype AppView = LOGIN | DASHBOARD | MAP_NAVIGATION

datatype MissionStatus =
  IDLE | CALCULATING | ENROUTE_PATIENT | AT_PATIENT | ENROUTE_HOSPITAL | COMPLETED

datatype TrafficLightState = RED | YELLOW | GREEN | GREEN_CORRIDOR_ACTIVE

text \<open>
  A JavaScript Number: a finite double (carried as the real it denotes), the two
  infinities, or NaN. The sign of zero is not distinguished.
\<close>

datatype number = NaN | PosInf | NegInf | Fin real

record Coordinate =
  lat :: number
  lng :: number

datatype Severity = Low | Medium | Critical

record EmergencyDetails =
  etype :: string
  severity :: Severity
  patientName :: string
  description :: string

datatype LogType = info | warning | success | analysis

record AILog =
  log_id :: string
  timestamp :: string
  message :: string
  kind :: LogType

section \<open>Double-precision rounding\<close>

text \<open>
  The arithmetic of the source is IEEE 754 binary64: every \<open>+\<close>, \<open>-\<close> and \<open>*\<close> returns the
  exact result rounded to the nearest double, ties to the even significand. \<open>expo x\<close> is
  the binary exponent of \<open>x\<close>, found by halving or doubling and held at \<open>-1022\<close> in the
  subnormal range; doubles with that exponent are the integer multiples of
  \<open>2 powi (expo x - 52)\<close>. Magnitudes of \<open>2 ^ 1024\<close> and above (which overflow to
  Infinity) are outside the range where \<open>fl\<close> is used.
\<close>

primrec halvings :: "nat \<Rightarrow> real \<Rightarrow> nat" where
  "halvings 0 x = 0"
| "halvings (Suc n) x = (if x < 2 then 0 else Suc (halvings n (x / 2)))"

primrec doublings :: "nat \<Rightarrow> real \<Rightarrow> nat" where
  "doublings 0 x = 0"
| "doublings (Suc n) x = (if 1 \<le> x then 0 else Suc (doublings n (2 * x)))"

definition expo :: "real \<Rightarrow> int" where
  "expo x = (if 1 \<le> \<bar>x\<bar> then int (halvings 1023 \<bar>x\<bar>) else - int (doublings 1022 \<bar>x\<bar>))"

definition round_half_even :: "real \<Rightarrow> int" where
  "round_half_even q =
     (let n = \<lfloor>q\<rfloor>; d = q - of_int n
      in if d < 1 / 2 then n else if 1 / 2 < d then n + 1 else if even n then n else n + 1)"

definition ulp :: "real \<Rightarrow> real" where
  "ulp x = 2 powi (expo x - 52)"

definition fl :: "real \<Rightarrow> real" where
  "fl x = of_int (round_half_even (x / ulp x)) * ulp x"

text \<open>
  \<open>n + y\<close> for a Number \<open>n\<close> and a finite \<open>y\<close>: NaN and the infinities absorb a finite
  summand.
\<close>

fun add_finite :: "number \<Rightarrow> real \<Rightarrow> number" where
  "add_finite (Fin x) y = Fin (fl (x + y))"
| "add_finite n y = n"

section \<open>Application state (the \<open>useState\<close> cells of \<open>App\<close>)\<close>

record state =
  view :: AppView
  status :: MissionStatus
  ambulancePos :: Coordinate
  targetPos :: "Coordinate option"
  emergency :: EmergencyDetails
  logs :: "AILog list"
  speed :: int
  distance :: string
  eta :: string
  trafficState :: TrafficLightState
  showTransModal :: bool
  manualLat :: string
  manualLng :: string

text \<open>
  Number literals denote the nearest double. \<open>BASE_LAT.toString()\<close> and
  \<open>BASE_LNG.toString()\<close> print the literals back.
\<close>

definition BASE_LAT :: number where
  "BASE_LAT = Fin (fl (40785091 / 1000000))"

definition BASE_LNG :: number where
  "BASE_LNG = Fin (fl (- 73968285 / 1000000))"

definition HOSPITAL_LOC :: Coordinate where
  "HOSPITAL_LOC = \<lparr>lat = Fin (fl (40789125 / 1000000)), lng = Fin (fl (- 73954605 / 1000000))\<rparr>"

definition initial :: state where
  "initial =
     \<lparr>view = LOGIN, status = IDLE,
      ambulancePos = \<lparr>lat = BASE_LAT, lng = BASE_LNG\<rparr>,
      targetPos = None,
      emergency = \<lparr>etype = ''Cardiac Arrest'', severity = Critical,
                   patientName = ''John Doe'',
                   description = ''Male, 55, chest pains, collapsed.''\<rparr>,
      logs = [],
      speed = 0, distance = ''0.0 km'', eta = ''--:--'', trafficState = RED,
      showTransModal = False,
      manualLat = ''40.785091'', manualLng = ''-73.968285''\<rparr>"

section \<open>Environment\<close>

text \<open>
  \<open>addLog\<close> draws the entry's id from \<open>Math.random\<close> and its timestamp from the clock;
  the pair is supplied by the caller as a \<open>stamp\<close>. The built-in functions of the
  language that the handlers call are collected in \<open>builtins\<close>.
\<close>

type_synonym stamp = "string \<times> string"

record builtins =
  parseFloat :: "string \<Rightarrow> number"
  toFixed :: "number \<Rightarrow> nat \<Rightarrow> string"
  toString :: "number \<Rightarrow> string"

definition isNaN :: "number \<Rightarrow> bool" where
  "isNaN n = (n = NaN)"

text \<open>
  Work handed to the event loop: the one-second timer of \<open>handleArrival\<close> with the
  \<open>targetPos\<close> its closure captured, the awaited \<open>analyzeEmergency\<close> call with its
  arguments, and a geolocation request.
\<close>

datatype task =
  CompletionTimer nat "Coordinate option"
| AnalysisCall string Severity string
| GeoRequest

section \<open>Handlers\<close>

definition addLog :: "stamp \<Rightarrow> string \<Rightarrow> LogType \<Rightarrow> state \<Rightarrow> state" where
  "addLog st msg ty s =
     s\<lparr>logs := logs s @ [\<lparr>log_id = fst st, timestamp = snd st, message = msg, kind = ty\<rparr>]\<rparr>"

definition handleLogin :: "stamp \<Rightarrow> state \<Rightarrow> state" where
  "handleLogin st s =
     (addLog st ''System initialized. User authenticated.'' success s)\<lparr>view := DASHBOARD\<rparr>"

definition handleManualLocation :: "builtins \<Rightarrow> stamp \<Rightarrow> state \<Rightarrow> state" where
  "handleManualLocation B st s =
     (let la = parseFloat B (manualLat s); ln = parseFloat B (manualLng s)
      in if \<not> isNaN la \<and> \<not> isNaN ln
         then addLog st (''Manual coordinates set: '' @ toFixed B la 4 @ '', '' @ toFixed B ln 4)
                warning (s\<lparr>ambulancePos := \<lparr>lat = la, lng = ln\<rparr>\<rparr>)
         else addLog st ''Invalid coordinates entered.'' warning s)"

text \<open>
  \<open>handleAutoLocation\<close>: \<open>geo\<close> tells whether \<open>navigator.geolocation\<close> exists. The two
  callbacks of \<open>getCurrentPosition\<close> are separate handlers.
\<close>

definition handleAutoLocation :: "bool \<Rightarrow> stamp \<Rightarrow> stamp \<Rightarrow> state \<Rightarrow> state \<times> task list" where
  "handleAutoLocation geo st st' s =
     (let s1 = addLog st ''Initiating satellite triangulation...'' info s
      in if geo then (s1, [GeoRequest])
         else (addLog st' ''Geolocation module offline.'' warning s1, []))"

definition geoSuccess :: "builtins \<Rightarrow> Coordinate \<Rightarrow> stamp \<Rightarrow> state \<Rightarrow> state" where
  "geoSuccess B newPos st s =
     addLog st (''Location locked: '' @ toFixed B (lat newPos) 4 @ '', '' @ toFixed B (lng newPos) 4)
       success
       (s\<lparr>ambulancePos := newPos,
          manualLat := toString B (lat newPos),
          manualLng := toString B (lng newPos)\<rparr>)"

definition geoError :: "stamp \<Rightarrow> state \<Rightarrow> state" where
  "geoError st s = addLog st ''GPS Signal weak. Defaulting to Base Station.'' warning s"

text \<open>
  \<open>startMission\<close> is an async function. Its body up to the \<open>await\<close> runs when the button is
  pressed; \<open>r1\<close> and \<open>r2\<close> are the two values of \<open>Math.random()\<close>. The rest runs when the
  promise of \<open>analyzeEmergency\<close> resolves with \<open>aiAnalysis\<close>.
\<close>

definition randomOffset :: "number \<Rightarrow> real \<Rightarrow> number" where
  "randomOffset x r = add_finite x (fl (fl (r - 1 / 2) * fl (2 / 100)))"

definition startMission :: "stamp \<Rightarrow> real \<Rightarrow> real \<Rightarrow> state \<Rightarrow> state \<times> task list" where
  "startMission st r1 r2 s =
     (let s1 = addLog st ''Mission parameters uploaded. Analyzing route...'' info
                 (s\<lparr>view := MAP_NAVIGATION, status := CALCULATING\<rparr>);
          randomLat = randomOffset (lat (ambulancePos s)) r1;
          randomLng = randomOffset (lng (ambulancePos s)) r2
      in (s1\<lparr>targetPos := Some \<lparr>lat = randomLat, lng = randomLng\<rparr>\<rparr>,
          [AnalysisCall (etype (emergency s)) (severity (emergency s)) ''Heavy Congestion'']))"

definition startMission_resume :: "string \<Rightarrow> stamp \<Rightarrow> stamp \<Rightarrow> state \<Rightarrow> state" where
  "startMission_resume aiAnalysis st st' s =
     addLog st' ''GREEN CORRIDOR PROTOCOL: ACTIVE. All signals preempted.'' success
       ((addLog st aiAnalysis analysis s)
          \<lparr>status := ENROUTE_PATIENT, trafficState := GREEN_CORRIDOR_ACTIVE\<rparr>)"

text \<open>
  \<open>handleRouteFound\<close> and \<open>handleDistanceUpdate\<close>: \<open>distKm\<close>, \<open>timeMin\<close> and \<open>km\<close> are the
  strings the source formats from its arguments with \<open>toFixed\<close> and \<open>Math.round\<close>.
\<close>

definition handleRouteFound :: "string \<Rightarrow> string \<Rightarrow> stamp \<Rightarrow> state \<Rightarrow> state" where
  "handleRouteFound distKm timeMin st s =
     addLog st (''Route Calculated. Dist: '' @ distKm @ ''km, ETA: '' @ timeMin @ ''min'') info
       (s\<lparr>distance := distKm @ '' km'', eta := timeMin @ '' min''\<rparr>)"

text \<open>
  \<open>handlePositionUpdate\<close>: \<open>r\<close> is the value of \<open>Math.random()\<close>; the argument \<open>pos\<close> is
  not read.
\<close>

definition handlePositionUpdate :: "real \<Rightarrow> Coordinate \<Rightarrow> state \<Rightarrow> state" where
  "handlePositionUpdate r pos s =
     (if trafficState s = RED then s\<lparr>speed := 0\<rparr>
      else
        let base = (if status s = ENROUTE_HOSPITAL then 80 else 50);
            currentSpeed = \<lfloor>fl (base + fl (r * 20))\<rfloor>
        in s\<lparr>speed := currentSpeed\<rparr>)"

definition handleDistanceUpdate :: "string \<Rightarrow> state \<Rightarrow> state" where
  "handleDistanceUpdate km s = s\<lparr>distance := km @ '' km''\<rparr>"

definition handleTrafficSignalUpdate :: "stamp \<Rightarrow> TrafficLightState \<Rightarrow> state \<Rightarrow> state" where
  "handleTrafficSignalUpdate st newState s =
     (let s1 = s\<lparr>trafficState := newState\<rparr>
      in if newState = RED
         then (addLog st ''Intersection Alert: RED Signal Detected. Braking...'' warning s1)
                \<lparr>speed := 0\<rparr>
         else if newState = GREEN_CORRIDOR_ACTIVE
         then (if trafficState s = RED \<or> trafficState s = YELLOW
               then addLog st ''Override Engaged: Green Wave Active. Accelerating.'' success s1
               else s1)
         else s1)"

text \<open>
  \<open>handleArrival\<close> returns the timer it hands to \<open>setTimeout\<close>: 1000 ms, with the
  \<open>targetPos\<close> of the render in which the handler ran. \<open>completionTimeout\<close> is the
  timer's callback.
\<close>

definition handleArrival :: "stamp \<Rightarrow> state \<Rightarrow> state \<times> task list" where
  "handleArrival st s =
     (if status s = ENROUTE_PATIENT
      then ((addLog st ''Arrived at patient location. Medical team deploying.'' info
               (s\<lparr>status := AT_PATIENT, speed := 0, trafficState := YELLOW\<rparr>))
              \<lparr>showTransModal := True\<rparr>, [])
      else if status s = ENROUTE_HOSPITAL
      then (addLog st ''Arrived at Hospital. Patient transfer initiated.'' success
              (s\<lparr>status := COMPLETED, speed := 0, trafficState := GREEN\<rparr>),
            [CompletionTimer 1000 (targetPos s)])
      else (s, []))"

definition completionTimeout :: "Coordinate option \<Rightarrow> state \<Rightarrow> state" where
  "completionTimeout captured s =
     (let s1 = s\<lparr>view := DASHBOARD, status := IDLE, targetPos := None,
                 distance := ''0.0 km'', eta := ''--:--''\<rparr>
      in case captured of None \<Rightarrow> s1 | Some t \<Rightarrow> s1\<lparr>ambulancePos := t\<rparr>)"

definition handleTransportToHospital :: "stamp \<Rightarrow> stamp \<Rightarrow> state \<Rightarrow> state" where
  "handleTransportToHospital st st' s =
     (let s1 = s\<lparr>showTransModal := False\<rparr>;
          s2 = (case targetPos s of None \<Rightarrow> s1 | Some t \<Rightarrow> s1\<lparr>ambulancePos := t\<rparr>);
          s3 = s2\<lparr>targetPos := Some HOSPITAL_LOC, status := ENROUTE_HOSPITAL,
                  trafficState := GREEN\<rparr>
      in addLog st' ''High Speed Protocol Engaged. Signals Syncing...'' success
           (addLog st ''Patient secured. Rerouting to Trauma Center.'' warning s3))"

text \<open>The \<open>onClick\<close> of the Abort Mission button.\<close>

definition abortMission :: "state \<Rightarrow> state" where
  "abortMission s = s\<lparr>view := DASHBOARD, status := IDLE\<rparr>"

section \<open>The event loop\<close>

text \<open>
  The state of the running application: the state cells and the work the event loop still
  holds. Each handler runs to completion on the state of the latest render. Every handler
  is offered in every state (the views only narrow this), a callback is offered while its
  task is pending, and \<open>Math.random()\<close> lies in \<open>[0, 1)\<close>.
\<close>

record sys =
  app :: state
  pending :: "task list"

datatype event =
  Login stamp
| SetEmergencyType string
| SetManualLat string
| SetManualLng string
| ManualLocation stamp
| AutoLocation bool stamp stamp
| GeoSuccess Coordinate stamp
| GeoError stamp
| StartMission stamp real real
| AnalysisResolved string Severity string string stamp stamp
| RouteFound string string stamp
| PositionUpdate real Coordinate
| DistanceUpdate string
| TrafficSignalUpdate stamp TrafficLightState
| Arrival stamp
| TimerFired nat "Coordinate option"
| TransportToHospital stamp stamp
| Abort

definition unit_interval :: "real \<Rightarrow> bool" where
  "unit_interval r = (0 \<le> r \<and> r < 1)"

definition now :: "state \<Rightarrow> sys \<Rightarrow> sys option" where
  "now s \<sigma> = Some (\<sigma>\<lparr>app := s\<rparr>)"

definition schedule :: "state \<times> task list \<Rightarrow> sys \<Rightarrow> sys option" where
  "schedule r \<sigma> = Some \<lparr>app = fst r, pending = pending \<sigma> @ snd r\<rparr>"

definition complete :: "task \<Rightarrow> state \<Rightarrow> sys \<Rightarrow> sys option" where
  "complete t s \<sigma> =
     (if t \<in> set (pending \<sigma>) then Some \<lparr>app = s, pending = remove1 t (pending \<sigma>)\<rparr> else None)"

fun fire :: "builtins \<Rightarrow> event \<Rightarrow> sys \<Rightarrow> sys option" where
  "fire B (Login st) \<sigma> = now (handleLogin st (app \<sigma>)) \<sigma>"
| "fire B (SetEmergencyType t) \<sigma> =
     now ((app \<sigma>)\<lparr>emergency := (emergency (app \<sigma>))\<lparr>etype := t\<rparr>\<rparr>) \<sigma>"
| "fire B (SetManualLat v) \<sigma> = now ((app \<sigma>)\<lparr>manualLat := v\<rparr>) \<sigma>"
| "fire B (SetManualLng v) \<sigma> = now ((app \<sigma>)\<lparr>manualLng := v\<rparr>) \<sigma>"
| "fire B (ManualLocation st) \<sigma> = now (handleManualLocation B st (app \<sigma>)) \<sigma>"
| "fire B (AutoLocation geo st st') \<sigma> = schedule (handleAutoLocation geo st st' (app \<sigma>)) \<sigma>"
| "fire B (GeoSuccess newPos st) \<sigma> = complete GeoRequest (geoSuccess B newPos st (app \<sigma>)) \<sigma>"
| "fire B (GeoError st) \<sigma> = complete GeoRequest (geoError st (app \<sigma>)) \<sigma>"
| "fire B (StartMission st r1 r2) \<sigma> =
     (if unit_interval r1 \<and> unit_interval r2 then schedule (startMission st r1 r2 (app \<sigma>)) \<sigma>
      else None)"
| "fire B (AnalysisResolved t sv hint aiAnalysis st st') \<sigma> =
     complete (AnalysisCall t sv hint) (startMission_resume aiAnalysis st st' (app \<sigma>)) \<sigma>"
| "fire B (RouteFound distKm timeMin st) \<sigma> = now (handleRouteFound distKm timeMin st (app \<sigma>)) \<sigma>"
| "fire B (PositionUpdate r pos) \<sigma> =
     (if unit_interval r then now (handlePositionUpdate r pos (app \<sigma>)) \<sigma> else None)"
| "fire B (DistanceUpdate km) \<sigma> = now (handleDistanceUpdate km (app \<sigma>)) \<sigma>"
| "fire B (TrafficSignalUpdate st newState) \<sigma> =
     now (handleTrafficSignalUpdate st newState (app \<sigma>)) \<sigma>"
| "fire B (Arrival st) \<sigma> = schedule (handleArrival st (app \<sigma>)) \<sigma>"
| "fire B (TimerFired ms captured) \<sigma> =
     complete (CompletionTimer ms captured) (completionTimeout captured (app \<sigma>)) \<sigma>"
| "fire B (TransportToHospital st st') \<sigma> = now (handleTransportToHospital st st' (app \<sigma>)) \<sigma>"
| "fire B Abort \<sigma> = now (abortMission (app \<sigma>)) \<sigma>"

definition boot :: sys where
  "boot = \<lparr>app = initial, pending = []\<rparr>"

inductive reachable :: "builtins \<Rightarrow> sys \<Rightarrow> bool" for B :: builtins where
  start: "reachable B boot"
| step: "reachable B \<sigma> \<Longrightarrow> fire B e \<sigma> = Some \<sigma>' \<Longrightarrow> reachable B \<sigma>'"

fun run :: "builtins \<Rightarrow> event list \<Rightarrow> sys \<Rightarrow> sys option" where
  "run B [] \<sigma> = Some \<sigma>"
| "run B (e # es) \<sigma> = (case fire B e \<sigma> of None \<Rightarrow> None | Some \<sigma>' \<Rightarrow> run B es \<sigma>')"

fun deliverArrivals :: "stamp list \<Rightarrow> state \<Rightarrow> state \<times> task list" where
  "deliverArrivals [] s = (s, [])"
| "deliverArrivals (st # sts) s =
     (let (s1, ts1) = handleArrival st s; (s2, ts2) = deliverArrivals sts s1
      in (s2, ts1 @ ts2))"

text \<open>
  The built-ins on the strings and numbers of the examples below:
  \<open>parseFloat("abc")\<close> and \<open>parseFloat("xyz")\<close> are NaN, \<open>parseFloat("40.75")\<close> is 40.75,
  \<open>parseFloat("-74")\<close> is -74, \<open>(40.75).toFixed(4)\<close> is "40.7500" and
  \<open>(-74).toFixed(4)\<close> is "-74.0000". The examples consult no other entry; the table
  holds NaN and the empty string there.
\<close>

definition exampleBuiltins :: builtins where
  "exampleBuiltins =
     \<lparr>parseFloat = (\<lambda>v. if v = ''40.75'' then Fin (163 / 4)
                         else if v = ''-74'' then Fin (- 74) else NaN),
      toFixed = (\<lambda>n d. if n = Fin (163 / 4) \<and> d = 4 then ''40.7500''
                        else if n = Fin (- 74) \<and> d = 4 then ''-74.0000'' else []),
      toString = (\<lambda>n. if n = Fin (163 / 4) then ''40.75''
                       else if n = Fin (- 74) then ''-74'' else [])\<rparr>"

definition red_stopped :: "state \<Rightarrow> bool" where
  "red_stopped s = (trafficState s = RED \<longrightarrow> speed s = 0)"

text \<open>
  What holds of the hospital leg in every reachable state: while \<open>status\<close> is
  \<open>ENROUTE_HOSPITAL\<close> the target is the hospital, every pending completion timer was set
  for 1000 ms and captured the hospital, and while \<open>status\<close> is \<open>COMPLETED\<close> such a timer is
  pending.
\<close>

fun is_timer :: "task \<Rightarrow> bool" where
  "is_timer (CompletionTimer ms captured) = True"
| "is_timer t = False"

fun hospital_timer :: "task \<Rightarrow> bool" where
  "hospital_timer (CompletionTimer ms captured) = (ms = 1000 \<and> captured = Some HOSPITAL_LOC)"
| "hospital_timer t = True"

definition hospital_leg_inv :: "sys \<Rightarrow> bool" where
  "hospital_leg_inv \<sigma> =
     ((status (app \<sigma>) = ENROUTE_HOSPITAL \<longrightarrow> targetPos (app \<sigma>) = Some HOSPITAL_LOC)
      \<and> list_all hospital_timer (pending \<sigma>)
      \<and> (status (app \<sigma>) = COMPLETED \<longrightarrow> list_ex is_timer (pending \<sigma>)))"

text \<open>The event is the resolution of an \<open>analyzeEmergency\<close> call that is pending.\<close>

fun analysis_resolution :: "event \<Rightarrow> sys \<Rightarrow> bool" where
  "analysis_resolution (AnalysisResolved t sv hint aiAnalysis st st') \<sigma> =
     (AnalysisCall t sv hint \<in> set (pending \<sigma>))"
| "analysis_resolution e \<sigma> = False"

text \<open>
  A whole mission, for the examples: login, manual start position (40.75, -74), start
  with both random numbers 0.5 (the patient is then at the start position), the analysis
  resolves, arrival at the patient, begin transport, arrival at the hospital.
\<close>

definition exampleMission :: "event list" where
  "exampleMission =
     [Login (''l1'', ''09:58:00''),
      SetManualLat ''40.75'', SetManualLng ''-74'',
      ManualLocation (''l2'', ''09:59:00''),
      StartMission (''l3'', ''10:00:00'') (1 / 2) (1 / 2),
      AnalysisResolved ''Cardiac Arrest'' Critical ''Heavy Congestion''
        ''Proceed with caution.'' (''l4'', ''10:00:02'') (''l5'', ''10:00:02''),
      Arrival (''l6'', ''10:04:00''),
      TransportToHospital (''l7'', ''10:05:00'') (''l8'', ''10:05:00''),
      Arrival (''l9'', ''10:09:00'')]"

text \<open>
  The example after start-mission (the analysis call still pending), when the ambulance
  has reached the patient, and when it has reached the hospital.
\<close>

definition exampleCalculating :: sys where
  "exampleCalculating = the (run exampleBuiltins (take 5 exampleMission) boot)"

definition exampleAtPatient :: sys where
  "exampleAtPatient = the (run exampleBuiltins (take 7 exampleMission) boot)"

definition exampleCompleted :: sys where
  "exampleCompleted = the (run exampleBuiltins exampleMission boot)"

text \<open>
  The example on the way to the patient: after the analysis has resolved, the route is
  found (1.2 km, 3 min), a position tick with random number 0 sets the speed, and the
  running distance is updated.
\<close>

definition exampleUnderwayEvents :: "event list" where
  "exampleUnderwayEvents =
     take 6 exampleMission @
     [RouteFound ''1.2'' ''3'' (''m1'', ''10:00:03''),
      PositionUpdate 0 \<lparr>lat = Fin (163 / 4), lng = Fin (- 74)\<rparr>,
      DistanceUpdate ''0.42'']"

definition exampleUnderway :: sys where
  "exampleUnderway = the (run exampleBuiltins exampleUnderwayEvents boot)"

text \<open>
  The largest double below 1 with 52 fraction bits, \<open>0.9999999999999998\<close>: a value
  \<open>Math.random()\<close> can return.
\<close>

definition top_random :: real where
  "top_random = 1 - 1 / 2 ^ 52"

section \<open>Facts about rounding\<close>

lemma halvings_numeral:
  "halvings (numeral k) x = (if x < 2 then 0 else Suc (halvings (pred_numeral k) (x / 2)))"
  by (simp add: numeral_eq_Suc)

lemma doublings_numeral:
  "doublings (numeral k) x = (if 1 \<le> x then 0 else Suc (doublings (pred_numeral k) (2 * x)))"
  by (simp add: numeral_eq_Suc)

lemmas fl_eval = fl_def ulp_def expo_def halvings_numeral doublings_numeral
  round_half_even_def Let_def power_int_minus

lemma halvings_lower: "1 \<le> x \<Longrightarrow> 2 ^ halvings n x \<le> x"
proof (induction n arbitrary: x)
  case 0 then show ?case by simp
next
  case (Suc n)
  show ?case
  proof (cases "x < 2")
    case True with Suc.prems show ?thesis by simp
  next
    case False
    then have "2 ^ halvings n (x / 2) \<le> x / 2" by (intro Suc.IH) simp
    with False show ?thesis by simp
  qed
qed

lemma halvings_upper: "x < 2 ^ Suc n \<Longrightarrow> x < 2 ^ Suc (halvings n x)"
proof (induction n arbitrary: x)
  case 0 then show ?case by simp
next
  case (Suc n)
  show ?case
  proof (cases "x < 2")
    case True then show ?thesis by simp
  next
    case False
    from Suc.prems have "x / 2 < 2 ^ Suc n" by simp
    then have "x / 2 < 2 ^ Suc (halvings n (x / 2))" by (rule Suc.IH)
    with False show ?thesis by simp
  qed
qed

lemma halvings_le: "halvings n x \<le> n"
  by (induction n arbitrary: x) auto

lemma doublings_le: "doublings n x \<le> n"
  by (induction n arbitrary: x) auto

lemma doublings_upper: "x < 2 \<Longrightarrow> x * 2 ^ doublings n x < 2"
proof (induction n arbitrary: x)
  case 0 then show ?case by simp
next
  case (Suc n)
  show ?case
  proof (cases "1 \<le> x")
    case True with Suc.prems show ?thesis by simp
  next
    case False
    then have "2 * x < 2" by simp
    then have "(2 * x) * 2 ^ doublings n (2 * x) < 2" by (rule Suc.IH)
    with False show ?thesis by (simp add: mult_ac)
  qed
qed

lemma doublings_lower: "doublings n x < n \<Longrightarrow> 1 \<le> x * 2 ^ doublings n x"
proof (induction n arbitrary: x)
  case 0 then show ?case by simp
next
  case (Suc n)
  show ?case
  proof (cases "1 \<le> x")
    case True then show ?thesis by simp
  next
    case False
    with Suc.prems have "doublings n (2 * x) < n" by simp
    then have "1 \<le> (2 * x) * 2 ^ doublings n (2 * x)" by (rule Suc.IH)
    with False show ?thesis by (simp add: mult_ac)
  qed
qed

lemma expo_range: "- 1022 \<le> expo x \<and> expo x \<le> 1023"
  using halvings_le [of 1023 "\<bar>x\<bar>"] doublings_le [of 1022 "\<bar>x\<bar>"]
  by (simp add: expo_def)

lemma expo_upper:
  assumes "0 \<le> x" "x < 2 ^ 1024"
  shows "x < 2 powi (expo x + 1)"
proof (cases "1 \<le> x")
  case True
  from assms(2) have "x < 2 ^ Suc 1023" by simp
  then have "x < 2 ^ Suc (halvings 1023 x)" by (rule halvings_upper)
  then have "x < 2 powi int (Suc (halvings 1023 x))" by (simp only: power_int_of_nat)
  with True assms(1) show ?thesis by (simp add: expo_def add.commute)
next
  case False
  define k where "k = doublings 1022 x"
  from False have "x < 2" by simp
  then have "x * 2 ^ k < 2" unfolding k_def by (rule doublings_upper)
  then have "x < 2 / 2 ^ k" by (simp add: pos_less_divide_eq)
  also have "2 / 2 ^ k = (2::real) powi (1 - int k)"
    by (simp add: power_int_diff)
  finally show ?thesis using False assms(1) by (simp add: expo_def k_def)
qed

lemma expo_lower:
  assumes "0 \<le> x" "- 1022 < expo x"
  shows "2 powi expo x \<le> x"
proof (cases "1 \<le> x")
  case True
  then have "2 ^ halvings 1023 x \<le> x" by (rule halvings_lower)
  with True assms(1) show ?thesis by (simp add: expo_def)
next
  case False
  define k where "k = doublings 1022 x"
  from False assms have "k < 1022" by (simp add: expo_def k_def)
  then have "1 \<le> x * 2 ^ k" unfolding k_def by (rule doublings_lower)
  then have "1 / 2 ^ k \<le> x" by (simp add: pos_divide_le_eq)
  moreover have "1 / 2 ^ k = (2::real) powi (- int k)"
    by (simp add: power_int_minus_divide)
  ultimately show ?thesis using False assms(1) by (simp add: expo_def k_def)
qed

lemma expo_mono:
  assumes "0 \<le> x" "x \<le> y" "y < 2 ^ 1024"
  shows "expo x \<le> expo y"
proof (rule ccontr)
  assume "\<not> expo x \<le> expo y"
  then have lt: "expo y + 1 \<le> expo x" by simp
  with expo_range [of y] have "- 1022 < expo x" by simp
  with assms(1) have "2 powi expo x \<le> x" by (rule expo_lower)
  moreover from assms have "y < 2 powi (expo y + 1)" by (intro expo_upper) simp_all
  moreover from lt have "(2::real) powi (expo y + 1) \<le> 2 powi expo x"
    by (intro power_int_increasing) simp_all
  ultimately show False using assms(2) by simp
qed

lemma round_half_even_of_int: "round_half_even (of_int n) = n"
  by (simp add: round_half_even_def)

lemma round_half_even_between:
  "\<lfloor>q\<rfloor> \<le> round_half_even q \<and> round_half_even q \<le> \<lfloor>q\<rfloor> + 1"
  by (simp add: round_half_even_def Let_def)

lemma round_half_even_mono:
  assumes "p \<le> q"
  shows "round_half_even p \<le> round_half_even q"
proof (cases "\<lfloor>p\<rfloor> = \<lfloor>q\<rfloor>")
  case True
  with assms show ?thesis by (simp add: round_half_even_def Let_def)
next
  case False
  with assms have "\<lfloor>p\<rfloor> + 1 \<le> \<lfloor>q\<rfloor>" using floor_mono [of p q] by simp
  with round_half_even_between [of p] round_half_even_between [of q] show ?thesis by simp
qed

lemma ulp_pos: "0 < ulp x"
  by (simp add: ulp_def)

lemma fl_upper:
  assumes "0 \<le> x" "x < 2 ^ 1024"
  shows "fl x \<le> 2 powi (expo x + 1)"
proof -
  have split: "(2::real) powi (expo x + 1) = 2 ^ 53 * ulp x"
    using power_int_add [of "2::real" 53 "expo x - 52"] by (simp add: ulp_def add.commute)
  from assms have "x < 2 powi (expo x + 1)" by (rule expo_upper)
  then have "x / ulp x \<le> of_int (2 ^ 53)"
    using ulp_pos [of x] by (simp add: split pos_divide_le_eq)
  then have "round_half_even (x / ulp x) \<le> round_half_even (of_int (2 ^ 53))"
    by (rule round_half_even_mono)
  then have "round_half_even (x / ulp x) \<le> 2 ^ 53"
    by (simp only: round_half_even_of_int)
  then have "real_of_int (round_half_even (x / ulp x)) \<le> real_of_int (2 ^ 53)"
    by (simp only: of_int_le_iff)
  then have "real_of_int (round_half_even (x / ulp x)) \<le> 2 ^ 53"
    by simp
  then show ?thesis
    using ulp_pos [of x] by (simp add: fl_def split)
qed

lemma fl_lower:
  assumes "0 \<le> x" "- 1022 < expo x"
  shows "2 powi expo x \<le> fl x"
proof -
  have split: "(2::real) powi expo x = 2 ^ 52 * ulp x"
    using power_int_add [of "2::real" 52 "expo x - 52"] by (simp add: ulp_def)
  from assms have "2 powi expo x \<le> x" by (rule expo_lower)
  then have "of_int (2 ^ 52) \<le> x / ulp x"
    using ulp_pos [of x] by (simp add: split pos_le_divide_eq)
  then have "round_half_even (of_int (2 ^ 52)) \<le> round_half_even (x / ulp x)"
    by (rule round_half_even_mono)
  then have "2 ^ 52 \<le> round_half_even (x / ulp x)"
    by (simp only: round_half_even_of_int)
  then have "real_of_int (2 ^ 52) \<le> real_of_int (round_half_even (x / ulp x))"
    by (simp only: of_int_le_iff)
  then have "2 ^ 52 \<le> real_of_int (round_half_even (x / ulp x))"
    by simp
  then show ?thesis
    using ulp_pos [of x] by (simp add: fl_def split)
qed

text \<open>Rounding is monotone on the non-negative range.\<close>

lemma fl_mono:
  assumes "0 \<le> x" "x \<le> y" "y < 2 ^ 1024"
  shows "fl x \<le> fl y"
proof (cases "expo x = expo y")
  case True
  then have u: "ulp x = ulp y" by (simp add: ulp_def)
  from assms(2) have "x / ulp y \<le> y / ulp y"
    using ulp_pos [of y] by (simp add: divide_right_mono)
  then have "round_half_even (x / ulp y) \<le> round_half_even (y / ulp y)"
    by (rule round_half_even_mono)
  then show ?thesis using ulp_pos [of y] by (simp add: fl_def u)
next
  case False
  with expo_mono [OF assms] have lt: "expo x + 1 \<le> expo y" by simp
  with expo_range [of x] have "- 1022 < expo y" by simp
  with assms have "2 powi expo y \<le> fl y" by (intro fl_lower) simp_all
  moreover from assms have "fl x \<le> 2 powi (expo x + 1)" by (intro fl_upper) simp_all
  moreover from lt have "(2::real) powi (expo x + 1) \<le> 2 powi expo y"
    by (intro power_int_increasing) simp_all
  ultimately show ?thesis by simp
qed

text \<open>The integers the speed rule adds are doubles.\<close>

lemma fl_consts: "fl 0 = 0" "fl 20 = 20" "fl 50 = 50" "fl 70 = 70" "fl 80 = 80" "fl 100 = 100"
  by (simp_all add: fl_eval)

lemma jitter_range:
  assumes "0 \<le> r" "r < 1"
  shows "0 \<le> fl (r * 20) \<and> fl (r * 20) \<le> 20"
proof -
  have "fl 0 \<le> fl (r * 20)" using assms by (intro fl_mono) simp_all
  moreover have "fl (r * 20) \<le> fl 20" using assms by (intro fl_mono) simp_all
  ultimately show ?thesis by (simp add: fl_consts)
qed

lemma speed_range:
  assumes "0 \<le> r" "r < 1" "b = 50 \<or> b = 80"
  shows "b \<le> \<lfloor>fl (of_int b + fl (r * 20))\<rfloor> \<and> \<lfloor>fl (of_int b + fl (r * 20))\<rfloor> \<le> b + 20"
proof -
  from assms(1,2) have j: "0 \<le> fl (r * 20)" "fl (r * 20) \<le> 20"
    using jitter_range by simp_all
  have lo: "fl (of_int b) \<le> fl (of_int b + fl (r * 20))"
    using assms(3) j by (intro fl_mono) auto
  have hi: "fl (of_int b + fl (r * 20)) \<le> fl (of_int b + 20)"
    using assms(3) j by (intro fl_mono) auto
  from assms(3) have "fl (of_int b) = of_int b" "fl (of_int b + 20) = of_int (b + 20)"
    by (auto simp add: fl_consts)
  with lo hi have b1: "of_int b \<le> fl (of_int b + fl (r * 20))"
    and b2: "fl (of_int b + fl (r * 20)) \<le> of_int (b + 20)" by simp_all
  from floor_mono [OF b1] floor_mono [OF b2] show ?thesis
    by (simp only: floor_of_int)
qed

text \<open>
  The largest random number of 52 bits: the product rounds to the double below 20, and
  adding the base rounds up to the next integer.
\<close>

lemma top_product: "fl ((1 - 1 / 2 ^ 52) * 20) = 20 - 1 / 2 ^ 48"
  by (simp add: fl_eval)

lemma top_sum_hospital: "fl (80 + (20 - 1 / 2 ^ 48)) = 100"
  by (simp add: fl_eval)

lemma top_sum_patient: "fl (50 + (20 - 1 / 2 ^ 48)) = 70"
  by (simp add: fl_eval)

lemma top_random_unit: "unit_interval top_random"
  by (simp add: unit_interval_def top_random_def)

lemma top_speed_hospital: "\<lfloor>fl (80 + fl (top_random * 20))\<rfloor> = 100"
  unfolding top_random_def by (simp only: top_product top_sum_hospital) simp

lemma top_speed_patient: "\<lfloor>fl (50 + fl (top_random * 20))\<rfloor> = 70"
  unfolding top_random_def by (simp only: top_product top_sum_patient) simp

lemma speed_on_hospital_leg:
  "trafficState s \<noteq> RED \<Longrightarrow> status s = ENROUTE_HOSPITAL \<Longrightarrow>
     speed (handlePositionUpdate r pos s) = \<lfloor>fl (80 + fl (r * 20))\<rfloor>"
  by (simp add: handlePositionUpdate_def)

lemma speed_off_hospital_leg:
  "trafficState s \<noteq> RED \<Longrightarrow> status s \<noteq> ENROUTE_HOSPITAL \<Longrightarrow>
     speed (handlePositionUpdate r pos s) = \<lfloor>fl (50 + fl (r * 20))\<rfloor>"
  by (simp add: handlePositionUpdate_def)

section \<open>Facts about the event loop\<close>

lemmas handler_defs = addLog_def handleLogin_def handleManualLocation_def
  handleAutoLocation_def geoSuccess_def geoError_def startMission_def startMission_resume_def
  handleRouteFound_def handlePositionUpdate_def handleDistanceUpdate_def
  handleTrafficSignalUpdate_def handleArrival_def completionTimeout_def
  handleTransportToHospital_def abortMission_def

lemmas loop_defs = now_def schedule_def complete_def

lemma reachable_run:
  "reachable B \<sigma> \<Longrightarrow> run B es \<sigma> = Some \<sigma>' \<Longrightarrow> reachable B \<sigma>'"
proof (induction es arbitrary: \<sigma>)
  case Nil
  then show ?case by simp
next
  case (Cons e es)
  then show ?case by (auto split: option.splits intro: reachable.step)
qed

lemma red_stopped_fire:
  assumes "red_stopped (app \<sigma>)" "fire B e \<sigma> = Some \<sigma>'"
  shows "red_stopped (app \<sigma>')"
  using assms
  by (cases e)
    (auto simp add: red_stopped_def handler_defs loop_defs Let_def
      split: if_splits option.splits)

lemma list_all_remove1: "list_all P xs \<Longrightarrow> list_all P (remove1 t xs)"
  using set_remove1_subset [of t xs] by (auto simp add: list_all_iff)

lemma list_ex_remove1: "list_ex P xs \<Longrightarrow> \<not> P t \<Longrightarrow> list_ex P (remove1 t xs)"
  by (induction xs) auto

lemma hospital_leg_inv_fire:
  assumes "hospital_leg_inv \<sigma>" "fire B e \<sigma> = Some \<sigma>'"
  shows "hospital_leg_inv \<sigma>'"
  using assms
  by (cases e)
    (auto simp add: hospital_leg_inv_def handler_defs loop_defs Let_def
      list_all_remove1 list_ex_remove1
      split: if_splits option.splits)

lemma hospital_leg_inv_reachable: "reachable B \<sigma> \<Longrightarrow> hospital_leg_inv \<sigma>"
proof (induction rule: reachable.induct)
  case start
  show ?case by (simp add: hospital_leg_inv_def boot_def initial_def)
next
  case (step \<sigma> e \<sigma>')
  then show ?case by (blast intro: hospital_leg_inv_fire)
qed

lemma pending_timer_is_hospital:
  assumes "hospital_leg_inv \<sigma>" "CompletionTimer ms c \<in> set (pending \<sigma>)"
  shows "ms = 1000 \<and> c = Some HOSPITAL_LOC"
proof -
  from assms(1) have "list_all hospital_timer (pending \<sigma>)" by (simp add: hospital_leg_inv_def)
  with assms(2) have "hospital_timer (CompletionTimer ms c)" unfolding list_all_iff by blast
  then show ?thesis by simp
qed

lemma enroute_patient_fire:
  assumes "fire B e \<sigma> = Some \<sigma>'" "status (app \<sigma>') = ENROUTE_PATIENT"
    "status (app \<sigma>) \<noteq> ENROUTE_PATIENT"
  shows "analysis_resolution e \<sigma>"
  using assms
  by (cases e)
    (auto simp add: handler_defs loop_defs Let_def split: if_splits option.splits)

section \<open>The example mission\<close>

lemma example_offsets:
  "randomOffset (Fin (163 / 4)) (1 / 2) = Fin (163 / 4)"
  "randomOffset (Fin (- 74)) (1 / 2) = Fin (- 74)"
  by (simp_all add: randomOffset_def fl_consts) (simp_all add: fl_eval)

lemma hospital_is_not_pickup: "HOSPITAL_LOC \<noteq> \<lparr>lat = Fin (163 / 4), lng = Fin (- 74)\<rparr>"
  by (simp add: HOSPITAL_LOC_def) (simp add: fl_eval)

lemmas example_eval = exampleMission_def exampleBuiltins_def boot_def initial_def
  handler_defs loop_defs unit_interval_def isNaN_def example_offsets Let_def

lemma example_calculating_facts:
  "status (app exampleCalculating) = CALCULATING"
  "trafficState (app exampleCalculating) = RED"
  "pending exampleCalculating = [AnalysisCall ''Cardiac Arrest'' Critical ''Heavy Congestion'']"
  by (simp_all add: exampleCalculating_def example_eval)

lemma example_at_patient_facts:
  "status (app exampleAtPatient) = AT_PATIENT"
  "targetPos (app exampleAtPatient) = Some \<lparr>lat = Fin (163 / 4), lng = Fin (- 74)\<rparr>"
  by (simp_all add: exampleAtPatient_def example_eval)

lemma example_completed_facts:
  "status (app exampleCompleted) = COMPLETED"
  "pending exampleCompleted = [CompletionTimer 1000 (Some HOSPITAL_LOC)]"
  by (simp_all add: exampleCompleted_def example_eval)

lemma example_completed:
  "run exampleBuiltins exampleMission boot = Some exampleCompleted"
  by (simp add: exampleCompleted_def example_eval)

lemma example_underway:
  "run exampleBuiltins exampleUnderwayEvents boot = Some exampleUnderway"
  by (simp add: exampleUnderway_def exampleUnderwayEvents_def example_eval fl_consts)

lemma example_underway_facts:
  "status (app exampleUnderway) = ENROUTE_PATIENT"
  "view (app exampleUnderway) = MAP_NAVIGATION"
  "targetPos (app exampleUnderway) = Some \<lparr>lat = Fin (163 / 4), lng = Fin (- 74)\<rparr>"
  "distance (app exampleUnderway) = ''0.42 km''"
  "eta (app exampleUnderway) = ''3 min''"
  "speed (app exampleUnderway) = 50"
  by (simp_all add: exampleUnderway_def exampleUnderwayEvents_def example_eval fl_consts)

section \<open>Properties of the handlers\<close>

text \<open>
  Claim C2. An Arrival handled while \<open>status\<close> is \<open>ENROUTE_PATIENT\<close> sets \<open>status\<close> to
  \<open>AT_PATIENT\<close>, \<open>speed\<close> to 0 and \<open>trafficState\<close> to \<open>YELLOW\<close>, appends one log entry,
  raises the transport modal and schedules nothing; every further Arrival of the sequence
  changes nothing, so the whole sequence has the effect of its first Arrival. An Arrival
  handled while \<open>status\<close> is neither \<open>ENROUTE_PATIENT\<close> nor \<open>ENROUTE_HOSPITAL\<close> returns the
  state as it was.
\<close>

theorem arrival_at_patient_once:
  "(status s = ENROUTE_PATIENT \<longrightarrow>
      handleArrival st s =
        (s\<lparr>status := AT_PATIENT, speed := 0, trafficState := YELLOW,
           logs := logs s @ [\<lparr>log_id = fst st, timestamp = snd st,
             message = ''Arrived at patient location. Medical team deploying.'', kind = info\<rparr>],
           showTransModal := True\<rparr>, [])
      \<and> deliverArrivals (st # sts) s = handleArrival st s)
   \<and> (status s' \<noteq> ENROUTE_PATIENT \<and> status s' \<noteq> ENROUTE_HOSPITAL \<longrightarrow>
        handleArrival st' s' = (s', []))"
proof -
  have idle: "deliverArrivals xs t = (t, [])"
    if "status t \<noteq> ENROUTE_PATIENT" "status t \<noteq> ENROUTE_HOSPITAL" for xs t
    using that by (induction xs) (simp_all add: handleArrival_def)
  show ?thesis
    by (auto simp add: handleArrival_def addLog_def idle)
qed

theorem arrival_at_patient_once_witness:
  "status (initial\<lparr>status := ENROUTE_PATIENT\<rparr>) = ENROUTE_PATIENT
   \<and> deliverArrivals [(''a1'', ''10:00:01''), (''a2'', ''10:00:02''), (''a3'', ''10:00:03'')]
        (initial\<lparr>status := ENROUTE_PATIENT\<rparr>)
      = handleArrival (''a1'', ''10:00:01'') (initial\<lparr>status := ENROUTE_PATIENT\<rparr>)
   \<and> status (fst (handleArrival (''a1'', ''10:00:01'') (initial\<lparr>status := ENROUTE_PATIENT\<rparr>)))
      = AT_PATIENT
   \<and> status initial \<noteq> ENROUTE_PATIENT \<and> status initial \<noteq> ENROUTE_HOSPITAL
   \<and> handleArrival (''a4'', ''10:00:04'') initial = (initial, [])"
  using arrival_at_patient_once
    [of "initial\<lparr>status := ENROUTE_PATIENT\<rparr>" "(''a1'', ''10:00:01'')"
        "[(''a2'', ''10:00:02''), (''a3'', ''10:00:03'')]" initial "(''a4'', ''10:00:04'')"]
  by (simp add: initial_def handleArrival_def addLog_def)

text \<open>
  Claim C3. Begin-transport with a target \<open>p\<close> moves \<open>ambulancePos\<close> to \<open>p\<close>, sets
  \<open>targetPos\<close> to \<open>HOSPITAL_LOC\<close> (the doubles of the literals 40.789125 and -73.954605),
  \<open>status\<close> to \<open>ENROUTE_HOSPITAL\<close> and \<open>trafficState\<close> to \<open>GREEN\<close>, closes the modal, and
  appends exactly the reroute entry followed by the high-speed entry.
\<close>

theorem begin_transport_effect:
  assumes "targetPos s = Some p"
  shows "handleTransportToHospital st st' s =
      s\<lparr>showTransModal := False, ambulancePos := p, targetPos := Some HOSPITAL_LOC,
        status := ENROUTE_HOSPITAL, trafficState := GREEN,
        logs := logs s @
          [\<lparr>log_id = fst st, timestamp = snd st,
            message = ''Patient secured. Rerouting to Trauma Center.'', kind = warning\<rparr>,
           \<lparr>log_id = fst st', timestamp = snd st',
            message = ''High Speed Protocol Engaged. Signals Syncing...'', kind = success\<rparr>]\<rparr>
    \<and> HOSPITAL_LOC = \<lparr>lat = Fin (fl (40789125 / 1000000)), lng = Fin (fl (- 73954605 / 1000000))\<rparr>"
  using assms by (simp add: handleTransportToHospital_def addLog_def HOSPITAL_LOC_def)

theorem begin_transport_effect_witness:
  "targetPos (initial\<lparr>status := AT_PATIENT,
       targetPos := Some \<lparr>lat = Fin (163 / 4), lng = Fin (- 74)\<rparr>\<rparr>)
     = Some \<lparr>lat = Fin (163 / 4), lng = Fin (- 74)\<rparr>
   \<and> ambulancePos (handleTransportToHospital (''b1'', ''10:05:00'') (''b2'', ''10:05:00'')
        (initial\<lparr>status := AT_PATIENT,
           targetPos := Some \<lparr>lat = Fin (163 / 4), lng = Fin (- 74)\<rparr>\<rparr>))
     = \<lparr>lat = Fin (163 / 4), lng = Fin (- 74)\<rparr>
   \<and> targetPos (handleTransportToHospital (''b1'', ''10:05:00'') (''b2'', ''10:05:00'')
        (initial\<lparr>status := AT_PATIENT,
           targetPos := Some \<lparr>lat = Fin (163 / 4), lng = Fin (- 74)\<rparr>\<rparr>))
     = Some HOSPITAL_LOC
   \<and> map message (logs (handleTransportToHospital (''b1'', ''10:05:00'') (''b2'', ''10:05:00'')
        (initial\<lparr>status := AT_PATIENT,
           targetPos := Some \<lparr>lat = Fin (163 / 4), lng = Fin (- 74)\<rparr>\<rparr>)))
     = [''Patient secured. Rerouting to Trauma Center.'',
        ''High Speed Protocol Engaged. Signals Syncing...'']"
  using begin_transport_effect
    [of "initial\<lparr>status := AT_PATIENT,
           targetPos := Some \<lparr>lat = Fin (163 / 4), lng = Fin (- 74)\<rparr>\<rparr>"
        "\<lparr>lat = Fin (163 / 4), lng = Fin (- 74)\<rparr>" "(''b1'', ''10:05:00'')" "(''b2'', ''10:05:00'')"]
  by (simp add: initial_def handleTransportToHospital_def addLog_def)

text \<open>
  Claim C8. Whatever the mission status: a signal event carrying \<open>RED\<close> stores it, sets
  \<open>speed\<close> to 0 and appends one braking warning; one carrying \<open>GREEN_CORRIDOR_ACTIVE\<close>
  appends one override entry when the stored state was \<open>RED\<close> or \<open>YELLOW\<close> and none
  otherwise, so a repeated \<open>GREEN_CORRIDOR_ACTIVE\<close> changes nothing; any other new state is
  stored and nothing is logged.
\<close>

theorem traffic_signal_reaction:
  "handleTrafficSignalUpdate st RED s =
     s\<lparr>trafficState := RED, speed := 0,
       logs := logs s @ [\<lparr>log_id = fst st, timestamp = snd st,
         message = ''Intersection Alert: RED Signal Detected. Braking...'', kind = warning\<rparr>]\<rparr>
   \<and> (trafficState s = RED \<or> trafficState s = YELLOW \<longrightarrow>
        handleTrafficSignalUpdate st GREEN_CORRIDOR_ACTIVE s =
          s\<lparr>trafficState := GREEN_CORRIDOR_ACTIVE,
            logs := logs s @ [\<lparr>log_id = fst st, timestamp = snd st,
              message = ''Override Engaged: Green Wave Active. Accelerating.'', kind = success\<rparr>]\<rparr>)
   \<and> (trafficState s \<noteq> RED \<and> trafficState s \<noteq> YELLOW \<longrightarrow>
        handleTrafficSignalUpdate st GREEN_CORRIDOR_ACTIVE s = s\<lparr>trafficState := GREEN_CORRIDOR_ACTIVE\<rparr>)
   \<and> handleTrafficSignalUpdate st' GREEN_CORRIDOR_ACTIVE
         (handleTrafficSignalUpdate st GREEN_CORRIDOR_ACTIVE s)
       = handleTrafficSignalUpdate st GREEN_CORRIDOR_ACTIVE s
   \<and> (n \<noteq> RED \<and> n \<noteq> GREEN_CORRIDOR_ACTIVE \<longrightarrow>
        handleTrafficSignalUpdate st n s = s\<lparr>trafficState := n\<rparr>)"
  by (cases "trafficState s") (simp_all add: handleTrafficSignalUpdate_def addLog_def)

theorem traffic_signal_reaction_witness:
  "trafficState initial = RED
   \<and> map message (logs (handleTrafficSignalUpdate (''c3'', ''10:02:03'') GREEN_CORRIDOR_ACTIVE
        (handleTrafficSignalUpdate (''c2'', ''10:02:02'') GREEN_CORRIDOR_ACTIVE
          (handleTrafficSignalUpdate (''c1'', ''10:02:01'') RED initial))))
     = [''Intersection Alert: RED Signal Detected. Braking...'',
        ''Override Engaged: Green Wave Active. Accelerating.'']
   \<and> speed (handleTrafficSignalUpdate (''c1'', ''10:02:01'') RED (initial\<lparr>speed := 57\<rparr>)) = 0
   \<and> YELLOW \<noteq> RED \<and> YELLOW \<noteq> GREEN_CORRIDOR_ACTIVE
   \<and> handleTrafficSignalUpdate (''c4'', ''10:02:04'') YELLOW initial = initial\<lparr>trafficState := YELLOW\<rparr>"
  using traffic_signal_reaction [of "(''c1'', ''10:02:01'')" initial "(''c3'', ''10:02:03'')" YELLOW]
    traffic_signal_reaction [of "(''c2'', ''10:02:02'')"
      "handleTrafficSignalUpdate (''c1'', ''10:02:01'') RED initial" "(''c3'', ''10:02:03'')" GREEN]
    traffic_signal_reaction [of "(''c1'', ''10:02:01'')" "initial\<lparr>speed := 57\<rparr>" "(''c3'', ''10:02:03'')" GREEN]
    traffic_signal_reaction [of "(''c4'', ''10:02:04'')" initial "(''c3'', ''10:02:03'')" YELLOW]
  by (simp add: initial_def handleTrafficSignalUpdate_def addLog_def)

text \<open>
  Claim C10. When \<open>parseFloat\<close> of either manual input is NaN, set-manual-location
  appends one warning entry and changes no other field; otherwise \<open>ambulancePos\<close> becomes
  the parsed pair.
\<close>

theorem manual_location_input:
  "(isNaN (parseFloat B (manualLat s)) \<or> isNaN (parseFloat B (manualLng s)) \<longrightarrow>
      handleManualLocation B st s =
        s\<lparr>logs := logs s @ [\<lparr>log_id = fst st, timestamp = snd st,
          message = ''Invalid coordinates entered.'', kind = warning\<rparr>]\<rparr>)
   \<and> (\<not> isNaN (parseFloat B (manualLat s)) \<and> \<not> isNaN (parseFloat B (manualLng s)) \<longrightarrow>
        ambulancePos (handleManualLocation B st s) =
          \<lparr>lat = parseFloat B (manualLat s), lng = parseFloat B (manualLng s)\<rparr>)"
  by (auto simp add: handleManualLocation_def addLog_def Let_def)

theorem manual_location_input_witness:
  "isNaN (parseFloat exampleBuiltins (manualLat (initial\<lparr>manualLat := ''abc'', manualLng := ''xyz''\<rparr>)))
   \<and> handleManualLocation exampleBuiltins (''d1'', ''09:59:00'')
        (initial\<lparr>manualLat := ''abc'', manualLng := ''xyz''\<rparr>)
      = initial\<lparr>manualLat := ''abc'', manualLng := ''xyz'',
          logs := [\<lparr>log_id = ''d1'', timestamp = ''09:59:00'',
            message = ''Invalid coordinates entered.'', kind = warning\<rparr>]\<rparr>
   \<and> \<not> isNaN (parseFloat exampleBuiltins (manualLat (initial\<lparr>manualLat := ''40.75'', manualLng := ''-74''\<rparr>)))
   \<and> \<not> isNaN (parseFloat exampleBuiltins (manualLng (initial\<lparr>manualLat := ''40.75'', manualLng := ''-74''\<rparr>)))
   \<and> ambulancePos (handleManualLocation exampleBuiltins (''d2'', ''09:59:30'')
        (initial\<lparr>manualLat := ''40.75'', manualLng := ''-74''\<rparr>))
      = \<lparr>lat = Fin (163 / 4), lng = Fin (- 74)\<rparr>"
  using manual_location_input [of exampleBuiltins "initial\<lparr>manualLat := ''abc'', manualLng := ''xyz''\<rparr>"
      "(''d1'', ''09:59:00'')"]
    manual_location_input [of exampleBuiltins "initial\<lparr>manualLat := ''40.75'', manualLng := ''-74''\<rparr>"
      "(''d2'', ''09:59:30'')"]
  by (simp add: initial_def exampleBuiltins_def isNaN_def handleManualLocation_def addLog_def)

text \<open>
  Claim C7. Abort is offered in every state of the loop and sets \<open>status\<close> to \<open>IDLE\<close>
  and \<open>view\<close> to \<open>DASHBOARD\<close>, but it clears none of the transient fields: in every
  state \<open>targetPos\<close>, \<open>distance\<close>, \<open>eta\<close> and \<open>speed\<close> keep their values (as do the
  emergency configuration and the log list). In the example on the way to the patient,
  which is reachable, the state after Abort still has the patient as target, distance
  "0.42 km", ETA "3 min" and speed 50, where the completion reset on the same state clears
  target, distance and ETA. And an Abort handled while the analysis call is pending does
  not last: when the call resolves, \<open>status\<close> is \<open>ENROUTE_PATIENT\<close> on the dashboard.
\<close>

theorem abort_keeps_transient_fields:
  "fire B Abort \<sigma> = Some (\<sigma>\<lparr>app := abortMission (app \<sigma>)\<rparr>)
   \<and> status (abortMission s) = IDLE \<and> view (abortMission s) = DASHBOARD
   \<and> targetPos (abortMission s) = targetPos s \<and> distance (abortMission s) = distance s
   \<and> eta (abortMission s) = eta s \<and> speed (abortMission s) = speed s
   \<and> emergency (abortMission s) = emergency s \<and> logs (abortMission s) = logs s
   \<and> reachable exampleBuiltins exampleUnderway
   \<and> status (app exampleUnderway) = ENROUTE_PATIENT
   \<and> (case fire exampleBuiltins Abort exampleUnderway of
         None \<Rightarrow> False
       | Some \<sigma>' \<Rightarrow> status (app \<sigma>') = IDLE
           \<and> targetPos (app \<sigma>') = Some \<lparr>lat = Fin (163 / 4), lng = Fin (- 74)\<rparr>
           \<and> targetPos (app \<sigma>') \<noteq> None
           \<and> distance (app \<sigma>') = ''0.42 km'' \<and> distance (app \<sigma>') \<noteq> ''0.0 km''
           \<and> eta (app \<sigma>') = ''3 min'' \<and> eta (app \<sigma>') \<noteq> ''--:--''
           \<and> speed (app \<sigma>') = 50 \<and> speed (app \<sigma>') \<noteq> 0)
   \<and> targetPos (completionTimeout None (app exampleUnderway)) = None
   \<and> distance (completionTimeout None (app exampleUnderway)) = ''0.0 km''
   \<and> eta (completionTimeout None (app exampleUnderway)) = ''--:--''
   \<and> (case run exampleBuiltins
         [Abort,
          AnalysisResolved ''Cardiac Arrest'' Critical ''Heavy Congestion''
            ''Proceed with caution.'' (''l4'', ''10:00:02'') (''l5'', ''10:00:02'')]
         exampleCalculating of
         None \<Rightarrow> False
       | Some \<sigma>' \<Rightarrow> status (app \<sigma>') = ENROUTE_PATIENT \<and> view (app \<sigma>') = DASHBOARD
           \<and> targetPos (app \<sigma>') \<noteq> None)"
proof -
  have general: "fire B Abort \<sigma> = Some (\<sigma>\<lparr>app := abortMission (app \<sigma>)\<rparr>)
      \<and> status (abortMission s) = IDLE \<and> view (abortMission s) = DASHBOARD
      \<and> targetPos (abortMission s) = targetPos s \<and> distance (abortMission s) = distance s
      \<and> eta (abortMission s) = eta s \<and> speed (abortMission s) = speed s
      \<and> emergency (abortMission s) = emergency s \<and> logs (abortMission s) = logs s"
    by (simp add: now_def abortMission_def)
  have r: "reachable exampleBuiltins exampleUnderway"
    using reachable.start example_underway by (rule reachable_run)
  have aborted: "(case fire exampleBuiltins Abort exampleUnderway of
         None \<Rightarrow> False
       | Some \<sigma>' \<Rightarrow> status (app \<sigma>') = IDLE
           \<and> targetPos (app \<sigma>') = Some \<lparr>lat = Fin (163 / 4), lng = Fin (- 74)\<rparr>
           \<and> targetPos (app \<sigma>') \<noteq> None
           \<and> distance (app \<sigma>') = ''0.42 km'' \<and> distance (app \<sigma>') \<noteq> ''0.0 km''
           \<and> eta (app \<sigma>') = ''3 min'' \<and> eta (app \<sigma>') \<noteq> ''--:--''
           \<and> speed (app \<sigma>') = 50 \<and> speed (app \<sigma>') \<noteq> 0)"
    by (simp add: now_def abortMission_def example_underway_facts)
  have sibling: "targetPos (completionTimeout None (app exampleUnderway)) = None
      \<and> distance (completionTimeout None (app exampleUnderway)) = ''0.0 km''
      \<and> eta (completionTimeout None (app exampleUnderway)) = ''--:--''"
    by (simp add: completionTimeout_def)
  have undone: "(case run exampleBuiltins
         [Abort,
          AnalysisResolved ''Cardiac Arrest'' Critical ''Heavy Congestion''
            ''Proceed with caution.'' (''l4'', ''10:00:02'') (''l5'', ''10:00:02'')]
         exampleCalculating of
         None \<Rightarrow> False
       | Some \<sigma>' \<Rightarrow> status (app \<sigma>') = ENROUTE_PATIENT \<and> view (app \<sigma>') = DASHBOARD
           \<and> targetPos (app \<sigma>') \<noteq> None)"
    by (simp add: exampleCalculating_def example_eval)
  from general r aborted sibling undone show ?thesis
    by (simp only: example_underway_facts simp_thms)
qed

section \<open>Properties of the mission\<close>

text \<open>
  Claim C1. \<open>speed\<close> is 0 whenever \<open>trafficState\<close> is \<open>RED\<close>: this holds in the initial
  state, every event of the loop (position tick, signal event, arrival, begin-transport,
  start-mission and its continuation, completion timer, abort and the rest) keeps it, and
  so it holds in every reachable state. A position tick handled while \<open>trafficState\<close> is
  \<open>RED\<close> sets \<open>speed\<close> to 0, and a signal event carrying \<open>RED\<close> sets \<open>speed\<close> to 0, whatever
  the mission status.
\<close>

theorem red_means_stopped:
  "red_stopped initial
   \<and> (red_stopped (app \<sigma>) \<and> fire B e \<sigma> = Some \<sigma>' \<longrightarrow> red_stopped (app \<sigma>'))
   \<and> (reachable B \<rho> \<longrightarrow> red_stopped (app \<rho>))
   \<and> (trafficState s = RED \<longrightarrow> speed (handlePositionUpdate r pos s) = 0)
   \<and> speed (handleTrafficSignalUpdate st RED s) = 0"
proof -
  have init: "red_stopped initial" by (simp add: red_stopped_def initial_def)
  have "red_stopped (app \<rho>)" if "reachable B \<rho>"
    using that
  proof (induction rule: reachable.induct)
    case start
    from init show ?case by (simp add: boot_def)
  next
    case (step \<sigma> e \<sigma>')
    then show ?case by (blast intro: red_stopped_fire)
  qed
  with init show ?thesis
    by (auto simp add: handlePositionUpdate_def handleTrafficSignalUpdate_def addLog_def
        intro: red_stopped_fire)
qed

theorem red_means_stopped_witness:
  "red_stopped (initial\<lparr>trafficState := GREEN, speed := 57\<rparr>)
   \<and> fire exampleBuiltins (TrafficSignalUpdate (''c1'', ''10:02:01'') RED)
        \<lparr>app = initial\<lparr>trafficState := GREEN, speed := 57\<rparr>, pending = []\<rparr>
      = Some \<lparr>app = handleTrafficSignalUpdate (''c1'', ''10:02:01'') RED
                  (initial\<lparr>trafficState := GREEN, speed := 57\<rparr>), pending = []\<rparr>
   \<and> red_stopped (handleTrafficSignalUpdate (''c1'', ''10:02:01'') RED
                  (initial\<lparr>trafficState := GREEN, speed := 57\<rparr>))
   \<and> reachable exampleBuiltins exampleCompleted
   \<and> red_stopped (app exampleCompleted)
   \<and> trafficState (initial\<lparr>speed := 57\<rparr>) = RED
   \<and> speed (handlePositionUpdate (1 / 2) HOSPITAL_LOC (initial\<lparr>speed := 57\<rparr>)) = 0"
proof -
  have r: "reachable exampleBuiltins exampleCompleted"
    using reachable.start example_completed by (rule reachable_run)
  have f: "fire exampleBuiltins (TrafficSignalUpdate (''c1'', ''10:02:01'') RED)
        \<lparr>app = initial\<lparr>trafficState := GREEN, speed := 57\<rparr>, pending = []\<rparr>
      = Some \<lparr>app = handleTrafficSignalUpdate (''c1'', ''10:02:01'') RED
                  (initial\<lparr>trafficState := GREEN, speed := 57\<rparr>), pending = []\<rparr>"
    by (simp add: now_def)
  have g: "red_stopped (initial\<lparr>trafficState := GREEN, speed := 57\<rparr>)"
    by (simp add: red_stopped_def)
  have t: "trafficState (initial\<lparr>speed := 57\<rparr>) = RED"
    by (simp add: initial_def)
  from red_means_stopped
    [of "\<lparr>app = initial\<lparr>trafficState := GREEN, speed := 57\<rparr>, pending = []\<rparr>"
        exampleBuiltins "TrafficSignalUpdate (''c1'', ''10:02:01'') RED"
        "\<lparr>app = handleTrafficSignalUpdate (''c1'', ''10:02:01'') RED
                  (initial\<lparr>trafficState := GREEN, speed := 57\<rparr>), pending = []\<rparr>"
        exampleCompleted "initial\<lparr>speed := 57\<rparr>" "1 / 2" HOSPITAL_LOC]
    r f g t
  show ?thesis by simp
qed

text \<open>
  When start-mission has run on the initial state, \<open>status\<close> is \<open>CALCULATING\<close> and
  \<open>trafficState\<close> is still \<open>RED\<close> while the analysis call is pending; and what runs when the
  call resolves is more than the appending of the analysis entry.
\<close>

theorem start_transition_counterexample:
  "status (fst (startMission (''l3'', ''10:00:00'') (1 / 2) (1 / 2) initial)) = CALCULATING
   \<and> status (fst (startMission (''l3'', ''10:00:00'') (1 / 2) (1 / 2) initial)) \<noteq> ENROUTE_PATIENT
   \<and> trafficState (fst (startMission (''l3'', ''10:00:00'') (1 / 2) (1 / 2) initial))
       \<noteq> GREEN_CORRIDOR_ACTIVE
   \<and> snd (startMission (''l3'', ''10:00:00'') (1 / 2) (1 / 2) initial)
       = [AnalysisCall ''Cardiac Arrest'' Critical ''Heavy Congestion'']
   \<and> startMission_resume ''Proceed with caution.'' (''l4'', ''10:00:02'') (''l5'', ''10:00:02'')
         (fst (startMission (''l3'', ''10:00:00'') (1 / 2) (1 / 2) initial))
       \<noteq> addLog (''l4'', ''10:00:02'') ''Proceed with caution.'' analysis
           (fst (startMission (''l3'', ''10:00:00'') (1 / 2) (1 / 2) initial))"
proof -
  have "status (startMission_resume ''Proceed with caution.'' (''l4'', ''10:00:02'') (''l5'', ''10:00:02'')
         (fst (startMission (''l3'', ''10:00:00'') (1 / 2) (1 / 2) initial)))
       \<noteq> status (addLog (''l4'', ''10:00:02'') ''Proceed with caution.'' analysis
           (fst (startMission (''l3'', ''10:00:00'') (1 / 2) (1 / 2) initial)))"
    by (simp add: startMission_def startMission_resume_def addLog_def Let_def)
  then have "startMission_resume ''Proceed with caution.'' (''l4'', ''10:00:02'') (''l5'', ''10:00:02'')
         (fst (startMission (''l3'', ''10:00:00'') (1 / 2) (1 / 2) initial))
       \<noteq> addLog (''l4'', ''10:00:02'') ''Proceed with caution.'' analysis
           (fst (startMission (''l3'', ''10:00:00'') (1 / 2) (1 / 2) initial))"
    by metis
  then show ?thesis
    by (simp add: startMission_def addLog_def Let_def initial_def)
qed

text \<open>
  Claim C4, amended. Start-mission sets \<open>status\<close> to \<open>CALCULATING\<close>, picks a target, leaves
  \<open>trafficState\<close> as it was and hands the analysis call to the event loop. The step to
  \<open>ENROUTE_PATIENT\<close>, the switch to \<open>GREEN_CORRIDOR_ACTIVE\<close> and the protocol entry follow
  the analysis entry in the continuation that runs when the call resolves; no other event
  takes a state that is not \<open>ENROUTE_PATIENT\<close> to \<open>ENROUTE_PATIENT\<close>.
\<close>

theorem start_waits_for_analysis:
  "status (fst (startMission st r1 r2 s)) = CALCULATING
   \<and> trafficState (fst (startMission st r1 r2 s)) = trafficState s
   \<and> targetPos (fst (startMission st r1 r2 s)) \<noteq> None
   \<and> snd (startMission st r1 r2 s)
       = [AnalysisCall (etype (emergency s)) (severity (emergency s)) ''Heavy Congestion'']
   \<and> startMission_resume aiAnalysis st1 st2 s' =
       s'\<lparr>status := ENROUTE_PATIENT, trafficState := GREEN_CORRIDOR_ACTIVE,
          logs := logs s' @
            [\<lparr>log_id = fst st1, timestamp = snd st1, message = aiAnalysis, kind = analysis\<rparr>,
             \<lparr>log_id = fst st2, timestamp = snd st2,
              message = ''GREEN CORRIDOR PROTOCOL: ACTIVE. All signals preempted.'',
              kind = success\<rparr>]\<rparr>
   \<and> (fire B e \<sigma> = Some \<sigma>' \<and> status (app \<sigma>') = ENROUTE_PATIENT
        \<and> status (app \<sigma>) \<noteq> ENROUTE_PATIENT \<longrightarrow> analysis_resolution e \<sigma>)"
  by (auto simp add: startMission_def startMission_resume_def addLog_def Let_def
      intro: enroute_patient_fire)

theorem start_waits_for_analysis_witness:
  "status (app exampleCalculating) = CALCULATING
   \<and> trafficState (app exampleCalculating) = RED
   \<and> (case fire exampleBuiltins
         (AnalysisResolved ''Cardiac Arrest'' Critical ''Heavy Congestion''
            ''Proceed with caution.'' (''l4'', ''10:00:02'') (''l5'', ''10:00:02''))
         exampleCalculating of
         None \<Rightarrow> False
       | Some \<sigma>' \<Rightarrow> status (app \<sigma>') = ENROUTE_PATIENT
           \<and> trafficState (app \<sigma>') = GREEN_CORRIDOR_ACTIVE)
   \<and> analysis_resolution
        (AnalysisResolved ''Cardiac Arrest'' Critical ''Heavy Congestion''
           ''Proceed with caution.'' (''l4'', ''10:00:02'') (''l5'', ''10:00:02''))
        exampleCalculating"
  using start_waits_for_analysis
    [of "(''l3'', ''10:00:00'')" "1 / 2" "1 / 2" initial
        "''Proceed with caution.''" "(''l4'', ''10:00:02'')" "(''l5'', ''10:00:02'')"
        "app exampleCalculating" exampleBuiltins
        "AnalysisResolved ''Cardiac Arrest'' Critical ''Heavy Congestion''
           ''Proceed with caution.'' (''l4'', ''10:00:02'') (''l5'', ''10:00:02'')"
        exampleCalculating
        "the (fire exampleBuiltins
           (AnalysisResolved ''Cardiac Arrest'' Critical ''Heavy Congestion''
              ''Proceed with caution.'' (''l4'', ''10:00:02'') (''l5'', ''10:00:02''))
           exampleCalculating)"]
  by (simp add: example_calculating_facts complete_def startMission_resume_def addLog_def)

text \<open>
  Claim C5. In every reachable state: an Arrival on the hospital leg sets \<open>status\<close> to
  \<open>COMPLETED\<close> and leaves a completion timer of 1000 ms pending; whenever \<open>status\<close> is
  \<open>COMPLETED\<close> such a timer is pending; and firing any pending completion timer gives
  \<open>status = IDLE\<close>, \<open>targetPos = None\<close>, \<open>distance = "0.0 km"\<close>, \<open>eta = "--:--"\<close> and
  \<open>ambulancePos = HOSPITAL_LOC\<close>, the last target.
\<close>

theorem completed_resets_to_idle:
  assumes "reachable B \<sigma>"
  shows "(status (app \<sigma>) = ENROUTE_HOSPITAL \<longrightarrow>
           (case fire B (Arrival st) \<sigma> of None \<Rightarrow> False
            | Some \<sigma>1 \<Rightarrow> status (app \<sigma>1) = COMPLETED
                \<and> CompletionTimer 1000 (Some HOSPITAL_LOC) \<in> set (pending \<sigma>1)))
     \<and> (status (app \<sigma>) = COMPLETED \<longrightarrow> list_ex is_timer (pending \<sigma>))
     \<and> (CompletionTimer ms c \<in> set (pending \<sigma>) \<longrightarrow>
           ms = 1000 \<and>
           (case fire B (TimerFired ms c) \<sigma> of None \<Rightarrow> False
            | Some \<sigma>' \<Rightarrow> status (app \<sigma>') = IDLE \<and> targetPos (app \<sigma>') = None
                \<and> distance (app \<sigma>') = ''0.0 km'' \<and> eta (app \<sigma>') = ''--:--''
                \<and> ambulancePos (app \<sigma>') = HOSPITAL_LOC))"
proof -
  from assms have inv: "hospital_leg_inv \<sigma>" by (rule hospital_leg_inv_reachable)
  have arrive: "status (app \<sigma>) = ENROUTE_HOSPITAL \<longrightarrow>
           (case fire B (Arrival st) \<sigma> of None \<Rightarrow> False
            | Some \<sigma>1 \<Rightarrow> status (app \<sigma>1) = COMPLETED
                \<and> CompletionTimer 1000 (Some HOSPITAL_LOC) \<in> set (pending \<sigma>1))"
    using inv by (simp add: hospital_leg_inv_def schedule_def handleArrival_def addLog_def)
  have waiting: "status (app \<sigma>) = COMPLETED \<longrightarrow> list_ex is_timer (pending \<sigma>)"
    using inv by (simp add: hospital_leg_inv_def)
  have reset: "ms = 1000 \<and>
           (case fire B (TimerFired ms c) \<sigma> of None \<Rightarrow> False
            | Some \<sigma>' \<Rightarrow> status (app \<sigma>') = IDLE \<and> targetPos (app \<sigma>') = None
                \<and> distance (app \<sigma>') = ''0.0 km'' \<and> eta (app \<sigma>') = ''--:--''
                \<and> ambulancePos (app \<sigma>') = HOSPITAL_LOC)"
    if "CompletionTimer ms c \<in> set (pending \<sigma>)"
    using that pending_timer_is_hospital [OF inv that]
    by (simp add: complete_def completionTimeout_def)
  from arrive waiting reset show ?thesis by blast
qed

theorem completed_resets_to_idle_witness:
  "reachable exampleBuiltins exampleCompleted
   \<and> status (app exampleCompleted) = COMPLETED
   \<and> list_ex is_timer (pending exampleCompleted)
   \<and> CompletionTimer 1000 (Some HOSPITAL_LOC) \<in> set (pending exampleCompleted)
   \<and> (case fire exampleBuiltins (TimerFired 1000 (Some HOSPITAL_LOC)) exampleCompleted of
         None \<Rightarrow> False
       | Some \<sigma>' \<Rightarrow> status (app \<sigma>') = IDLE \<and> targetPos (app \<sigma>') = None
           \<and> distance (app \<sigma>') = ''0.0 km'' \<and> eta (app \<sigma>') = ''--:--''
           \<and> ambulancePos (app \<sigma>') = HOSPITAL_LOC)"
proof -
  have r: "reachable exampleBuiltins exampleCompleted"
    using reachable.start example_completed by (rule reachable_run)
  have c: "status (app exampleCompleted) = COMPLETED"
    and t: "CompletionTimer 1000 (Some HOSPITAL_LOC) \<in> set (pending exampleCompleted)"
    by (simp_all add: example_completed_facts)
  from completed_resets_to_idle [OF r, of "(''l9'', ''10:09:00'')" 1000 "Some HOSPITAL_LOC"] r c t
  show ?thesis by simp
qed

text \<open>
  In the example mission the patient is picked up at (40.75, -74); after the reset the
  ambulance is not there.
\<close>

theorem reset_position_counterexample:
  "status (app exampleAtPatient) = AT_PATIENT
   \<and> targetPos (app exampleAtPatient) = Some \<lparr>lat = Fin (163 / 4), lng = Fin (- 74)\<rparr>
   \<and> run exampleBuiltins (drop 7 exampleMission) exampleAtPatient = Some exampleCompleted
   \<and> status (app exampleCompleted) = COMPLETED
   \<and> (case fire exampleBuiltins (TimerFired 1000 (Some HOSPITAL_LOC)) exampleCompleted of
         None \<Rightarrow> False
       | Some \<sigma>' \<Rightarrow> status (app \<sigma>') = IDLE \<and> targetPos (app \<sigma>') = None
           \<and> ambulancePos (app \<sigma>') \<noteq> \<lparr>lat = Fin (163 / 4), lng = Fin (- 74)\<rparr>)"
proof -
  have b: "run exampleBuiltins (drop 7 exampleMission) exampleAtPatient = Some exampleCompleted"
    by (simp add: exampleAtPatient_def exampleCompleted_def example_eval)
  from b hospital_is_not_pickup show ?thesis
    by (simp add: example_at_patient_facts example_completed_facts
        complete_def completionTimeout_def)
qed

text \<open>
  Claim C6, amended. The Arrival that follows begin-transport sets \<open>status\<close> to
  \<open>COMPLETED\<close> and schedules the reset with the hospital as captured target; the reset
  puts the ambulance at the hospital (not at the pickup point), clears the target and sets
  \<open>status\<close> to \<open>IDLE\<close>.
\<close>

theorem reset_moves_to_hospital:
  "snd (handleArrival st'' (handleTransportToHospital st st' s))
     = [CompletionTimer 1000 (Some HOSPITAL_LOC)]
   \<and> status (fst (handleArrival st'' (handleTransportToHospital st st' s))) = COMPLETED
   \<and> ambulancePos (completionTimeout (Some HOSPITAL_LOC) s') = HOSPITAL_LOC
   \<and> targetPos (completionTimeout captured s') = None
   \<and> status (completionTimeout captured s') = IDLE"
  by (simp add: handleArrival_def handleTransportToHospital_def completionTimeout_def addLog_def
      Let_def split: option.splits)

text \<open>
  With the random number \<open>0.9999999999999998\<close> the speed is 100 on the hospital leg and
  70 on the patient leg.
\<close>

theorem speed_top_counterexample:
  "unit_interval top_random
   \<and> speed (handlePositionUpdate top_random HOSPITAL_LOC
        (initial\<lparr>status := ENROUTE_HOSPITAL, trafficState := GREEN\<rparr>)) = 100
   \<and> \<not> speed (handlePositionUpdate top_random HOSPITAL_LOC
        (initial\<lparr>status := ENROUTE_HOSPITAL, trafficState := GREEN\<rparr>)) \<le> 99
   \<and> speed (handlePositionUpdate top_random HOSPITAL_LOC
        (initial\<lparr>status := ENROUTE_PATIENT, trafficState := GREEN_CORRIDOR_ACTIVE\<rparr>)) = 70
   \<and> \<not> speed (handlePositionUpdate top_random HOSPITAL_LOC
        (initial\<lparr>status := ENROUTE_PATIENT, trafficState := GREEN_CORRIDOR_ACTIVE\<rparr>)) \<le> 69"
  by (simp add: handlePositionUpdate_def initial_def top_random_unit
      top_speed_hospital top_speed_patient)

text \<open>
  Claim C9, amended. For position ticks handled while \<open>trafficState\<close> is not \<open>RED\<close> and random
  numbers in \<open>[0, 1)\<close>: the speed on the hospital leg lies in \<open>[80, 100]\<close>, the speed in any
  other status lies in \<open>[50, 70]\<close>, and so every hospital-leg speed exceeds every other
  speed.
\<close>

theorem speed_by_leg:
  assumes "trafficState s \<noteq> RED" "unit_interval r"
    and "trafficState s' \<noteq> RED" "unit_interval r'"
    and "status s = ENROUTE_HOSPITAL" "status s' \<noteq> ENROUTE_HOSPITAL"
  shows "80 \<le> speed (handlePositionUpdate r pos s)
     \<and> speed (handlePositionUpdate r pos s) \<le> 100
     \<and> 50 \<le> speed (handlePositionUpdate r' pos' s')
     \<and> speed (handlePositionUpdate r' pos' s') \<le> 70
     \<and> speed (handlePositionUpdate r' pos' s') < speed (handlePositionUpdate r pos s)"
proof -
  from assms(2) have "0 \<le> r" "r < 1" by (simp_all add: unit_interval_def)
  from speed_range [OF this, of 80]
  have h: "80 \<le> \<lfloor>fl (80 + fl (r * 20))\<rfloor> \<and> \<lfloor>fl (80 + fl (r * 20))\<rfloor> \<le> 100"
    by simp
  from assms(4) have "0 \<le> r'" "r' < 1" by (simp_all add: unit_interval_def)
  from speed_range [OF this, of 50]
  have p: "50 \<le> \<lfloor>fl (50 + fl (r' * 20))\<rfloor> \<and> \<lfloor>fl (50 + fl (r' * 20))\<rfloor> \<le> 70"
    by simp
  from h p show ?thesis
    unfolding speed_on_hospital_leg [OF assms(1,5)] speed_off_hospital_leg [OF assms(3,6)]
    by linarith
qed

theorem speed_by_leg_witness:
  "trafficState (initial\<lparr>status := ENROUTE_HOSPITAL, trafficState := GREEN\<rparr>) \<noteq> RED
   \<and> unit_interval 0
   \<and> trafficState (initial\<lparr>status := ENROUTE_PATIENT, trafficState := GREEN_CORRIDOR_ACTIVE\<rparr>)
       \<noteq> RED
   \<and> unit_interval top_random
   \<and> status (initial\<lparr>status := ENROUTE_HOSPITAL, trafficState := GREEN\<rparr>) = ENROUTE_HOSPITAL
   \<and> status (initial\<lparr>status := ENROUTE_PATIENT, trafficState := GREEN_CORRIDOR_ACTIVE\<rparr>)
       \<noteq> ENROUTE_HOSPITAL
   \<and> speed (handlePositionUpdate top_random HOSPITAL_LOC
        (initial\<lparr>status := ENROUTE_PATIENT, trafficState := GREEN_CORRIDOR_ACTIVE\<rparr>))
     < speed (handlePositionUpdate 0 HOSPITAL_LOC
        (initial\<lparr>status := ENROUTE_HOSPITAL, trafficState := GREEN\<rparr>))
   \<and> speed (handlePositionUpdate 0 HOSPITAL_LOC
        (initial\<lparr>status := ENROUTE_HOSPITAL, trafficState := GREEN\<rparr>)) = 80"
proof -
  have zero: "unit_interval 0"
    by (simp add: unit_interval_def)
  have slow: "speed (handlePositionUpdate 0 HOSPITAL_LOC
        (initial\<lparr>status := ENROUTE_HOSPITAL, trafficState := GREEN\<rparr>)) = 80"
    by (simp add: handlePositionUpdate_def initial_def fl_consts)
  show ?thesis
    using speed_by_leg [of "initial\<lparr>status := ENROUTE_HOSPITAL, trafficState := GREEN\<rparr>" 0
        "initial\<lparr>status := ENROUTE_PATIENT, trafficState := GREEN_CORRIDOR_ACTIVE\<rparr>"
        top_random HOSPITAL_LOC HOSPITAL_LOC] zero top_random_unit slow
    by (simp add: initial_def)
qed

end
